theory Spec2Isabelle
  imports Main
begin

section \<open>The Separate Layers publish plugin (separate_layers.py)\<close>

text \<open>
  The plugin is a hook with four lifecycle methods (\<open>accept\<close>, \<open>validate\<close>,
  \<open>publish\<close>, \<open>finalize\<close>) and two module-level helpers. Everything it does is
  a call into the host document, the layer decoding library, the file system, the logger
  or the registration API. Each of these is made explicit here: what the plugin changes
  is a field of the state it is run on, what it only consults is a field of the
  environment, and every exception is a value.
\<close>

subsection \<open>Python values and exceptions\<close>

text \<open>
  Exceptions. All of them are instances of Python's \<open>Exception\<close>, which is what the
  two \<open>except Exception\<close> clauses of the source catch. \<open>Raised m\<close> is an exception
  raised by an external collaborator (host application, decode library, image writer,
  registration API).
\<close>

datatype py_error =
    KeyError string
  | AttributeError
  | TypeError
  | OSError
  | Raised string

text \<open>
  A document handle of the host application. \<open>document.name\<close> is a string;
  reading \<open>document.fullName.fsName\<close> either gives the path on disk or raises
  (the host raises for a document that was never saved).
\<close>

record document =
  doc_name :: string
  doc_fsName :: "py_error + string"

text \<open>The values that \<open>item.properties\<close> holds.\<close>

datatype pvalue =
    PNone
  | PBool bool
  | PStr string
  | PDoc document

text \<open>
  Python truth value: \<open>None\<close>, \<open>False\<close> and the empty string are false; a document
  handle is an object without a truth value of its own, hence true.
\<close>

fun truthy :: "pvalue \<Rightarrow> bool" where
  "truthy PNone = False"
| "truthy (PBool b) = b"
| "truthy (PStr s) = (s \<noteq> [])"
| "truthy (PDoc d) = True"

text \<open>Attribute reads on a value; a value that is no document has neither attribute.\<close>

fun fullName_fsName :: "pvalue \<Rightarrow> py_error + string" where
  "fullName_fsName (PDoc d) = doc_fsName d"
| "fullName_fsName v = Inl AttributeError"

fun name_of :: "pvalue \<Rightarrow> py_error + string" where
  "name_of (PDoc d) = Inr (doc_name d)"
| "name_of v = Inl AttributeError"

text \<open>A resolved path (\<open>None\<close> or a string) as a Python value and its truth value.\<close>

fun path_value :: "string option \<Rightarrow> pvalue" where
  "path_value None = PNone"
| "path_value (Some p) = PStr p"

subsection \<open>Layers, log records, registration calls\<close>

type_synonym image = "nat list"

text \<open>
  A decoded layer: \<open>layer.name\<close> and the result of \<open>layer.compose()\<close>, which is the
  flat image or an exception of the decode library.
\<close>

record layer =
  layer_name :: string
  layer_compose :: "py_error + image"

datatype callback =
    EngineSaveAs pvalue
  | ShowFileSaveDlg

text \<open>
  The \<open>extra\<close> dictionary of a log call has one key, \<open>action_button\<close> or
  \<open>action_show_in_shotgun\<close>; the constructor is the key, its arguments the entries.
\<close>

datatype action =
    ActionButton (action_label: string) (action_tooltip: string) (action_callback: callback)
  | ActionShowInShotgun (action_label: string) (action_tooltip: string) (action_entity: "string option")

datatype level = Info | Warn

text \<open>
  A log record: the format string and the values formatted into it (the rendering of
  \<open>%\<close> and \<open>format\<close> is the logger's business), and the \<open>extra\<close> argument.
\<close>

record log_entry =
  log_level :: level
  log_format :: string
  log_args :: "pvalue list"
  log_extra :: "action option"

datatype sg_context = Context (entity: "string option") (project: "string option")

text \<open>The arguments of one call of \<open>sgtk.util.register_publish\<close>.\<close>

record publish_call =
  pc_context :: sg_context
  pc_path :: string
  pc_name :: string
  pc_version_number :: "int option"
  pc_published_file_type :: string

subsection \<open>State and environment\<close>

text \<open>
  The state: the item (its mutable property dictionary and its context), the log, the
  files on disk (by absolute path), the calls made to the registration API and the calls
  made to \<open>_document_path\<close>, both in order.
\<close>

record pstate =
  properties :: "string \<rightharpoonup> pvalue"
  item_context :: sg_context
  logged :: "log_entry list"
  files :: "string \<rightharpoonup> image"
  register_calls :: "publish_call list"
  path_calls :: "pvalue list"

datatype app = App (attrs: "string list")

text \<open>
  The environment: the working directory of the process, the apps of the running engine
  (\<open>sgtk.platform.current_engine().apps\<close>; the hook is run by the publisher app of
  an engine, so there is one), and the behaviour of the external calls:
  \<open>PSDImage.open\<close>, whether writing or removing a file at an absolute path fails, and
  whether a registration call fails.
\<close>

record env =
  cwd :: string
  engine_apps :: "string \<rightharpoonup> app"
  PSDImage_open :: "string option \<Rightarrow> py_error + layer list"
  save_error :: "string \<Rightarrow> py_error option"
  remove_error :: "string \<Rightarrow> py_error option"
  register_error :: "publish_call \<Rightarrow> py_error option"

type_synonym 'a outcome = "(py_error + 'a) \<times> pstate"

type_synonym settings = "string \<rightharpoonup> pvalue"

subsection \<open>Paths (posixpath)\<close>

text \<open>\<open>os.path.join(a, b)\<close>.\<close>

definition path_join :: "string \<Rightarrow> string \<Rightarrow> string" where
  "path_join a b =
     (if (case b of [] \<Rightarrow> False | c # cs \<Rightarrow> c = CHR ''/'') then b
      else if a = [] \<or> last a = CHR ''/'' then a @ b
      else a @ ''/'' @ b)"

text \<open>
  \<open>os.path.dirname(p)\<close>: the head is \<open>p\<close> up to and including its last slash;
  unless it is empty or slashes only, its trailing slashes are stripped.
\<close>

definition dirname :: "string \<Rightarrow> string" where
  "dirname p =
     (let head = rev (dropWhile (\<lambda>c. c \<noteq> CHR ''/'') (rev p))
      in if head \<noteq> [] \<and> filter (\<lambda>c. c \<noteq> CHR ''/'') head \<noteq> []
         then rev (dropWhile (\<lambda>c. c = CHR ''/'') (rev head))
         else head)"

subsection \<open>Logging\<close>

definition logger_info :: "string \<Rightarrow> pvalue list \<Rightarrow> action option \<Rightarrow> pstate \<Rightarrow> pstate" where
  "logger_info fmt args extra s =
     s\<lparr>logged := logged s @
       [\<lparr>log_level = Info, log_format = fmt, log_args = args, log_extra = extra\<rparr>]\<rparr>"

definition logger_warn :: "string \<Rightarrow> pvalue list \<Rightarrow> action option \<Rightarrow> pstate \<Rightarrow> pstate" where
  "logger_warn fmt args extra s =
     s\<lparr>logged := logged s @
       [\<lparr>log_level = Warn, log_format = fmt, log_args = args, log_extra = extra\<rparr>]\<rparr>"

subsection \<open>The helpers\<close>

text \<open>
  \<open>_document_path(document)\<close>: the read of \<open>document.fullName.fsName\<close> under
  \<open>try\<close>, with \<open>None\<close> for any exception. The call is recorded.
\<close>

definition document_path :: "pvalue \<Rightarrow> pstate \<Rightarrow> string option \<times> pstate" where
  "document_path document s =
     ((case fullName_fsName document of Inl e \<Rightarrow> None | Inr path \<Rightarrow> Some path),
      s\<lparr>path_calls := path_calls s @ [document]\<rparr>)"

text \<open>
  \<open>_get_save_as_action(document)\<close>: the callback is the engine's \<open>save_as\<close> on
  the document, replaced by the file save dialog of the workfiles app when the engine
  has that app and the app has the attribute.
\<close>

definition hasattr :: "app \<Rightarrow> string \<Rightarrow> bool" where
  "hasattr a n = (n \<in> set (attrs a))"

definition get_save_as_action :: "env \<Rightarrow> pvalue \<Rightarrow> action" where
  "get_save_as_action e document =
     (let callback =
        (case engine_apps e ''tk-multi-workfiles2'' of
           None \<Rightarrow> EngineSaveAs document
         | Some a \<Rightarrow>
             if hasattr a ''show_file_save_dlg'' then ShowFileSaveDlg
             else EngineSaveAs document)
      in ActionButton ''Save As...'' ''Save the current document'' callback)"

subsection \<open>External calls\<close>

text \<open>
  \<open>image.save(p)\<close>: a relative path is resolved by the operating system against the
  working directory of the process (an absolute one is taken as it is, which is what
  \<open>path_join\<close> does); the write fails or stores the image there.
\<close>

definition image_save :: "env \<Rightarrow> image \<Rightarrow> string \<Rightarrow> pstate \<Rightarrow> unit outcome" where
  "image_save e img p s =
     (let target = path_join (cwd e) p
      in case save_error e target of
           Some err \<Rightarrow> (Inl err, s)
         | None \<Rightarrow> (Inr (), s\<lparr>files := (files s)(target \<mapsto> img)\<rparr>))"

text \<open>
  \<open>os.remove(p)\<close>: a \<open>TypeError\<close> for a value that is no string, an \<open>OSError\<close>
  when there is no such file, the environment's error when the file cannot be removed;
  otherwise the file is gone.
\<close>

definition os_remove :: "env \<Rightarrow> pvalue \<Rightarrow> pstate \<Rightarrow> unit outcome" where
  "os_remove e v s =
     (case v of
        PStr p \<Rightarrow>
          (let target = path_join (cwd e) p
           in case files s target of
                None \<Rightarrow> (Inl OSError, s)
              | Some img \<Rightarrow>
                  (case remove_error e target of
                     Some err \<Rightarrow> (Inl err, s)
                   | None \<Rightarrow> (Inr (), s\<lparr>files := (files s)(target := None)\<rparr>)))
      | PNone \<Rightarrow> (Inl TypeError, s)
      | PBool b \<Rightarrow> (Inl TypeError, s)
      | PDoc d \<Rightarrow> (Inl TypeError, s))"

text \<open>
  \<open>sgtk.util.register_publish(tk, context, path, name, version_number=...,
  published_file_type=...)\<close>: the call is recorded, whether it raises or not.
\<close>

definition register_publish ::
  "env \<Rightarrow> sg_context \<Rightarrow> string \<Rightarrow> string \<Rightarrow> int option \<Rightarrow> string \<Rightarrow> pstate \<Rightarrow> unit outcome" where
  "register_publish e ctx path nm version_number published_file_type s =
     (let c = \<lparr>pc_context = ctx, pc_path = path, pc_name = nm,
                pc_version_number = version_number,
                pc_published_file_type = published_file_type\<rparr>;
          s' = s\<lparr>register_calls := register_calls s @ [c]\<rparr>
      in case register_error e c of
           Some err \<Rightarrow> (Inl err, s')
         | None \<Rightarrow> (Inr (), s'))"

subsection \<open>The lifecycle methods\<close>

definition plugin_name :: string where
  "plugin_name = ''Separate Layers''"

text \<open>\<open>item.properties.get(k, default)\<close>.\<close>

definition properties_get :: "pstate \<Rightarrow> string \<Rightarrow> pvalue \<Rightarrow> pvalue" where
  "properties_get s k dflt = (case properties s k of None \<Rightarrow> dflt | Some v \<Rightarrow> v)"

text \<open>
  \<open>accept\<close>. In the branch of the unsaved document the message is formatted first
  (\<open>document.name\<close> is read, which raises for a value that is no document), then the
  action is built, then the warning is logged.
\<close>

definition accept :: "env \<Rightarrow> settings \<Rightarrow> pstate \<Rightarrow> (string \<rightharpoonup> bool) outcome" where
  "accept e settings s =
     (let document = properties_get s ''document'' PNone
      in if \<not> truthy document then
           (Inr [''accepted'' \<mapsto> False],
            logger_warn ''Could not determine the document for item'' [] None s)
         else
           (case document_path document s of
              (path, s1) \<Rightarrow>
                (case (if \<not> truthy (path_value path) then
                         (case name_of document of
                            Inl err \<Rightarrow> Inl err
                          | Inr n \<Rightarrow>
                              Inr (logger_warn ''The Photoshop document '%s' has not been saved.''
                                     [PStr n] (Some (get_save_as_action e document)) s1))
                       else Inr s1) of
                   Inl err \<Rightarrow> (Inl err, s1)
                 | Inr s2 \<Rightarrow>
                     (case name_of document of
                        Inl err \<Rightarrow> (Inl err, s2)
                      | Inr n \<Rightarrow>
                          (Inr [''accepted'' \<mapsto> True, ''checked'' \<mapsto> True],
                           logger_info ''Photoshop '%s' plugin accepted document: %s''
                             [PStr plugin_name, PStr n] None s2)))))"

text \<open>\<open>validate\<close>: the loop over the decoded layers, then the method.\<close>

fun validate_loop :: "layer list \<Rightarrow> pstate \<Rightarrow> pstate" where
  "validate_loop [] s = s"
| "validate_loop (l # ls) s =
     validate_loop ls (logger_info ''Validated {layerName}.psd'' [PStr (layer_name l)] None s)"

definition validate :: "env \<Rightarrow> settings \<Rightarrow> pstate \<Rightarrow> bool outcome" where
  "validate e settings s =
     (case properties s ''document'' of
        None \<Rightarrow> (Inl (KeyError ''document''), s)
      | Some document \<Rightarrow>
          (case document_path document s of
             (path, s1) \<Rightarrow>
               (case PSDImage_open e path of
                  Inl err \<Rightarrow> (Inl err, s1)
                | Inr psdProject \<Rightarrow> (Inr True, validate_loop psdProject s1))))"

text \<open>
  \<open>publish\<close>: the loop body saves the composed layer under the relative name
  \<open>layer.name + '.tiff'\<close>, logs, and registers the path
  \<open>os.path.join(os.path.dirname(path), layer.name + '.tiff')\<close>; \<open>dirname\<close> of
  \<open>None\<close> raises an \<open>AttributeError\<close>. An exception ends the loop and keeps what
  was done before it.
\<close>

fun publish_loop :: "env \<Rightarrow> string option \<Rightarrow> layer list \<Rightarrow> pstate \<Rightarrow> unit outcome" where
  "publish_loop e path [] s = (Inr (), s)"
| "publish_loop e path (l # ls) s =
     (case layer_compose l of
        Inl err \<Rightarrow> (Inl err, s)
      | Inr img \<Rightarrow>
          (case image_save e img (layer_name l @ ''.tiff'') s of
             (Inl err, s1) \<Rightarrow> (Inl err, s1)
           | (Inr u, s1) \<Rightarrow>
               (let s2 = logger_info ''Saved Layer {layerName}.psd'' [PStr (layer_name l)] None s1
                in case path of
                     None \<Rightarrow> (Inl AttributeError, s2)
                   | Some p \<Rightarrow>
                       (case register_publish e (item_context s2)
                               (path_join (dirname p) (layer_name l @ ''.tiff''))
                               (layer_name l) None ''Rendered Image'' s2 of
                          (Inl err, s3) \<Rightarrow> (Inl err, s3)
                        | (Inr u', s3) \<Rightarrow> publish_loop e path ls s3))))"

definition publish :: "env \<Rightarrow> settings \<Rightarrow> pstate \<Rightarrow> unit outcome" where
  "publish e settings s =
     (case properties s ''document'' of
        None \<Rightarrow> (Inl (KeyError ''document''), s)
      | Some document \<Rightarrow>
          (case document_path document s of
             (path, s1) \<Rightarrow>
               (let s2 = s1\<lparr>properties := (properties s1)(''upload_path'' \<mapsto> path_value path)\<rparr>
                in case PSDImage_open e path of
                     Inl err \<Rightarrow> (Inl err, s2)
                   | Inr psdProject \<Rightarrow> publish_loop e path psdProject s2)))"

text \<open>
  \<open>finalize\<close>: the log call, the subscript \<open>item.properties["upload_path"]\<close> (a
  \<open>KeyError\<close> when the key is missing), then the removal under \<open>try\<close>.
\<close>

definition finalize :: "env \<Rightarrow> settings \<Rightarrow> pstate \<Rightarrow> unit outcome" where
  "finalize e settings s =
     (let s1 = logger_info ''Version uploaded for Photoshop document'' []
                 (Some (ActionShowInShotgun ''Show Version'' ''Reveal the version in Shotgun.'' None)) s
      in case properties s1 ''upload_path'' of
           None \<Rightarrow> (Inl (KeyError ''upload_path''), s1)
         | Some upload_path \<Rightarrow>
             if truthy (properties_get s1 ''remove_upload'' (PBool False)) then
               (case os_remove e upload_path s1 of
                  (Inl err, s2) \<Rightarrow>
                    (Inr (), logger_warn ''Unable to remove temp file: %s'' [upload_path] None s2)
                | (Inr u, s2) \<Rightarrow> (Inr (), s2))
             else (Inr (), s1))"

subsection \<open>A concrete run\<close>

text \<open>
  A saved document \<open>/proj/art.psd\<close> with the layers \<open>bg\<close>, \<open>fg\<close> and
  \<open>text\<close>, a document that was never saved, and a process whose working directory
  is \<open>/tmp\<close> and in which no external call fails.
\<close>

definition ex_document :: document where
  "ex_document = \<lparr>doc_name = ''art.psd'', doc_fsName = Inr ''/proj/art.psd''\<rparr>"

definition ex_unsaved :: document where
  "ex_unsaved =
     \<lparr>doc_name = ''Untitled-1'', doc_fsName = Inl (Raised ''document has no file'')\<rparr>"

definition ex_layers :: "layer list" where
  "ex_layers =
     [\<lparr>layer_name = ''bg'', layer_compose = Inr [0]\<rparr>,
      \<lparr>layer_name = ''fg'', layer_compose = Inr [1]\<rparr>,
      \<lparr>layer_name = ''text'', layer_compose = Inr [2]\<rparr>]"

definition ex_env :: env where
  "ex_env =
     \<lparr>cwd = ''/tmp'', engine_apps = Map.empty,
      PSDImage_open = (\<lambda>p. if p = Some ''/proj/art.psd'' then Inr ex_layers
                             else Inl (Raised ''cannot open'')),
      save_error = (\<lambda>p. None), remove_error = (\<lambda>p. None),
      register_error = (\<lambda>c. None)\<rparr>"

definition ex_state :: pstate where
  "ex_state =
     \<lparr>properties = [''document'' \<mapsto> PDoc ex_document],
      item_context = Context (Some ''Shot_010'') (Some ''Demo''),
      logged = [], files = [''/proj/art.psd'' \<mapsto> [7]],
      register_calls = [], path_calls = []\<rparr>"

text \<open>
  The same process when the decode library finds no layer in the document; the item
  after \<open>publish\<close> (its \<open>upload_path\<close> is set); an item whose upload is to be
  removed but is not on disk; an item that holds the unsaved document.
\<close>

definition ex_env_empty :: env where
  "ex_env_empty = ex_env\<lparr>PSDImage_open := (\<lambda>p. Inr [])\<rparr>"

definition ex_published :: pstate where
  "ex_published =
     ex_state\<lparr>properties := [''document'' \<mapsto> PDoc ex_document,
                               ''upload_path'' \<mapsto> PStr ''/proj/art.psd'']\<rparr>"

definition ex_remove_missing :: pstate where
  "ex_remove_missing =
     ex_state\<lparr>properties := [''upload_path'' \<mapsto> PStr ''/proj/gone.psd'',
                               ''remove_upload'' \<mapsto> PBool True]\<rparr>"

definition ex_unsaved_state :: pstate where
  "ex_unsaved_state = ex_state\<lparr>properties := [''document'' \<mapsto> PDoc ex_unsaved]\<rparr>"


section \<open>Properties\<close>

subsection \<open>Path resolution\<close>

lemma document_path_fst:
  "fst (document_path document s) =
     (case fullName_fsName document of Inl err \<Rightarrow> None | Inr p \<Rightarrow> Some p)"
  by (simp add: document_path_def)

lemma document_path_snd:
  "snd (document_path document s) = s\<lparr>path_calls := path_calls s @ [document]\<rparr>"
  by (simp add: document_path_def)

text \<open>
  C4. \<open>_document_path\<close> has no exceptional outcome at all (its result is an optional
  path, not a sum). When reading \<open>document.fullName.fsName\<close> raises, whatever the
  exception, the result is \<open>None\<close>; when the read gives a path, the result is that
  path.
\<close>

theorem document_path_swallows:
  "(fullName_fsName document = Inl err \<longrightarrow> fst (document_path document s) = None) \<and>
   (fullName_fsName document = Inr p \<longrightarrow> fst (document_path document s) = Some p)"
  by (simp add: document_path_def)

theorem document_path_swallows_witness:
  "fullName_fsName (PDoc ex_unsaved) = Inl (Raised ''document has no file'') \<and>
   fst (document_path (PDoc ex_unsaved) ex_state) = None \<and>
   fullName_fsName (PDoc ex_document) = Inr ''/proj/art.psd'' \<and>
   fst (document_path (PDoc ex_document) ex_state) = Some ''/proj/art.psd''"
  using document_path_swallows [of "PDoc ex_unsaved" "Raised ''document has no file''" ex_state "[]"]
        document_path_swallows [of "PDoc ex_document" "TypeError" ex_state "''/proj/art.psd''"]
  by (simp add: ex_unsaved_def ex_document_def)

subsection \<open>accept\<close>

text \<open>
  C3. When the item's \<open>document\<close> property is missing or holds a false value,
  \<open>accept\<close> returns the dictionary \<open>{accepted: False}\<close>, adds exactly one record to
  the log, a warning, and makes no call of \<open>_document_path\<close>.
\<close>

theorem accept_without_document:
  assumes "\<not> truthy (properties_get s ''document'' PNone)"
  shows "fst (accept e settings s) = Inr [''accepted'' \<mapsto> False] \<and>
         logged (snd (accept e settings s)) =
           logged s @ [\<lparr>log_level = Warn,
                         log_format = ''Could not determine the document for item'',
                         log_args = [], log_extra = None\<rparr>] \<and>
         path_calls (snd (accept e settings s)) = path_calls s"
  using assms by (simp add: accept_def logger_warn_def)

theorem accept_without_document_witness:
  "\<not> truthy (properties_get (ex_state\<lparr>properties := Map.empty\<rparr>) ''document'' PNone) \<and>
   fst (accept ex_env Map.empty (ex_state\<lparr>properties := Map.empty\<rparr>)) = Inr [''accepted'' \<mapsto> False] \<and>
   logged (snd (accept ex_env Map.empty (ex_state\<lparr>properties := Map.empty\<rparr>))) =
     [\<lparr>log_level = Warn, log_format = ''Could not determine the document for item'',
       log_args = [], log_extra = None\<rparr>] \<and>
   path_calls (snd (accept ex_env Map.empty (ex_state\<lparr>properties := Map.empty\<rparr>))) = []"
proof -
  have h: "\<not> truthy (properties_get (ex_state\<lparr>properties := Map.empty\<rparr>) ''document'' PNone)"
    by (simp add: properties_get_def)
  show ?thesis
    using h accept_without_document [OF h, of ex_env Map.empty]
    by (simp add: ex_state_def)
qed

text \<open>
  C8. When the item holds a document whose path does not resolve (the result of
  \<open>_document_path\<close> is \<open>None\<close> or empty), \<open>accept\<close> logs a warning whose
  \<open>extra\<close> is the action button labelled \<open>Save As...\<close>, logs the acceptance, and
  returns \<open>{accepted: True, checked: True}\<close>: it does not raise.
\<close>

theorem accept_unsaved_document:
  assumes "properties s ''document'' = Some (PDoc d)"
    and "\<not> truthy (path_value (fst (document_path (PDoc d) s)))"
  shows "fst (accept e settings s) = Inr [''accepted'' \<mapsto> True, ''checked'' \<mapsto> True] \<and>
         logged (snd (accept e settings s)) =
           logged s @
           [\<lparr>log_level = Warn,
             log_format = ''The Photoshop document '%s' has not been saved.'',
             log_args = [PStr (doc_name d)],
             log_extra = Some (get_save_as_action e (PDoc d))\<rparr>,
            \<lparr>log_level = Info,
             log_format = ''Photoshop '%s' plugin accepted document: %s'',
             log_args = [PStr plugin_name, PStr (doc_name d)],
             log_extra = None\<rparr>] \<and>
         action_label (get_save_as_action e (PDoc d)) = ''Save As...''"
  using assms
  by (simp add: accept_def properties_get_def document_path_def logger_warn_def
        logger_info_def get_save_as_action_def Let_def split: sum.splits)

theorem accept_unsaved_document_witness:
  "properties ex_unsaved_state ''document'' = Some (PDoc ex_unsaved) \<and>
   fst (document_path (PDoc ex_unsaved) ex_unsaved_state) = None \<and>
   fst (accept ex_env Map.empty ex_unsaved_state) =
     Inr [''accepted'' \<mapsto> True, ''checked'' \<mapsto> True] \<and>
   logged (snd (accept ex_env Map.empty ex_unsaved_state)) =
     [\<lparr>log_level = Warn,
       log_format = ''The Photoshop document '%s' has not been saved.'',
       log_args = [PStr ''Untitled-1''],
       log_extra = Some (ActionButton ''Save As...'' ''Save the current document''
                           (EngineSaveAs (PDoc ex_unsaved)))\<rparr>,
      \<lparr>log_level = Info,
       log_format = ''Photoshop '%s' plugin accepted document: %s'',
       log_args = [PStr ''Separate Layers'', PStr ''Untitled-1''],
       log_extra = None\<rparr>]"
proof -
  have h1: "properties ex_unsaved_state ''document'' = Some (PDoc ex_unsaved)"
    by (simp add: ex_unsaved_state_def)
  have p: "fst (document_path (PDoc ex_unsaved) ex_unsaved_state) = None"
    by (simp add: document_path_def ex_unsaved_def)
  have h2: "\<not> truthy (path_value (fst (document_path (PDoc ex_unsaved) ex_unsaved_state)))"
    by (simp add: p)
  have a: "get_save_as_action ex_env (PDoc ex_unsaved) =
             ActionButton ''Save As...'' ''Save the current document'' (EngineSaveAs (PDoc ex_unsaved))"
    by (simp add: get_save_as_action_def ex_env_def)
  have n: "doc_name ex_unsaved = ''Untitled-1''"
    by (simp add: ex_unsaved_def)
  have l: "logged ex_unsaved_state = []"
    by (simp add: ex_unsaved_state_def ex_state_def)
  show ?thesis
    using h1 p accept_unsaved_document [OF h1 h2, of ex_env Map.empty]
    by (simp add: a n l plugin_name_def)
qed

subsection \<open>validate\<close>

lemma validate_loop_logged:
  "logged (validate_loop ls s) =
     logged s @ map (\<lambda>l. \<lparr>log_level = Info, log_format = ''Validated {layerName}.psd'',
                           log_args = [PStr (layer_name l)], log_extra = None\<rparr>) ls"
  by (induction ls arbitrary: s) (simp_all add: logger_info_def)

text \<open>
  C5. When the item holds a document and the decode library opens it, \<open>validate\<close>
  returns \<open>True\<close> whatever the layers are, and the log grows by one informational
  record per decoded layer, in order; with no layer the log is unchanged.
\<close>

theorem validate_returns_True:
  assumes "properties s ''document'' = Some document"
    and "PSDImage_open e (fst (document_path document s)) = Inr psdProject"
  shows "fst (validate e settings s) = Inr True \<and>
         logged (snd (validate e settings s)) =
           logged s @ map (\<lambda>l. \<lparr>log_level = Info, log_format = ''Validated {layerName}.psd'',
                                 log_args = [PStr (layer_name l)], log_extra = None\<rparr>) psdProject"
  using assms
  by (simp add: validate_def validate_loop_logged document_path_def split: prod.splits)

theorem validate_returns_True_witness:
  "properties ex_state ''document'' = Some (PDoc ex_document) \<and>
   PSDImage_open ex_env_empty (fst (document_path (PDoc ex_document) ex_state)) = Inr [] \<and>
   fst (validate ex_env_empty Map.empty ex_state) = Inr True \<and>
   logged (snd (validate ex_env_empty Map.empty ex_state)) = logged ex_state"
proof -
  have h1: "properties ex_state ''document'' = Some (PDoc ex_document)"
    by (simp add: ex_state_def)
  have h2: "PSDImage_open ex_env_empty (fst (document_path (PDoc ex_document) ex_state)) = Inr []"
    by (simp add: ex_env_empty_def)
  show ?thesis
    using h1 h2 validate_returns_True [OF h1 h2, of Map.empty]
    by simp
qed

subsection \<open>publish\<close>

lemma publish_loop_frame:
  "properties (snd (publish_loop e path ls s)) = properties s \<and>
   path_calls (snd (publish_loop e path ls s)) = path_calls s"
proof (induction ls arbitrary: s)
  case Nil
  show ?case by simp
next
  case (Cons l ls)
  show ?case
    using Cons.IH
    by (cases path)
       (simp_all add: image_save_def register_publish_def logger_info_def Let_def
          split: sum.splits option.splits prod.splits)
qed

lemma ex_dirname: "dirname ''/proj/art.psd'' = ''/proj''"
  by (simp add: dirname_def)

lemma ex_publish:
  "publish ex_env Map.empty ex_state =
     (Inr (),
      \<lparr>properties = [''document'' \<mapsto> PDoc ex_document, ''upload_path'' \<mapsto> PStr ''/proj/art.psd''],
       item_context = Context (Some ''Shot_010'') (Some ''Demo''),
       logged =
         [\<lparr>log_level = Info, log_format = ''Saved Layer {layerName}.psd'',
           log_args = [PStr ''bg''], log_extra = None\<rparr>,
          \<lparr>log_level = Info, log_format = ''Saved Layer {layerName}.psd'',
           log_args = [PStr ''fg''], log_extra = None\<rparr>,
          \<lparr>log_level = Info, log_format = ''Saved Layer {layerName}.psd'',
           log_args = [PStr ''text''], log_extra = None\<rparr>],
       files = [''/proj/art.psd'' \<mapsto> [7], ''/tmp/bg.tiff'' \<mapsto> [0],
                ''/tmp/fg.tiff'' \<mapsto> [1], ''/tmp/text.tiff'' \<mapsto> [2]],
       register_calls =
         [\<lparr>pc_context = Context (Some ''Shot_010'') (Some ''Demo''),
           pc_path = ''/proj/bg.tiff'', pc_name = ''bg'',
           pc_version_number = None, pc_published_file_type = ''Rendered Image''\<rparr>,
          \<lparr>pc_context = Context (Some ''Shot_010'') (Some ''Demo''),
           pc_path = ''/proj/fg.tiff'', pc_name = ''fg'',
           pc_version_number = None, pc_published_file_type = ''Rendered Image''\<rparr>,
          \<lparr>pc_context = Context (Some ''Shot_010'') (Some ''Demo''),
           pc_path = ''/proj/text.tiff'', pc_name = ''text'',
           pc_version_number = None, pc_published_file_type = ''Rendered Image''\<rparr>],
       path_calls = [PDoc ex_document]\<rparr>)"
  by (simp add: publish_def document_path_def ex_state_def ex_env_def ex_layers_def
        image_save_def register_publish_def logger_info_def Let_def ex_dirname path_join_def
        ex_document_def)

text \<open>
  C9. When the item holds a document, \<open>publish\<close> calls \<open>_document_path\<close> on it
  once and stores the result under \<open>upload_path\<close>; this is done before the document
  is opened, so it holds of the state that \<open>publish\<close> leaves whether it returns or
  raises (also when \<open>PSDImage.open\<close> raises).
\<close>

theorem publish_stores_upload_path:
  assumes "properties s ''document'' = Some document"
  shows "properties (snd (publish e settings s)) ''upload_path'' =
           Some (path_value (fst (document_path document s))) \<and>
         path_calls (snd (publish e settings s)) = path_calls s @ [document]"
  using assms
  by (simp add: publish_def document_path_def publish_loop_frame Let_def split: sum.splits)

theorem publish_stores_upload_path_witness:
  "properties ex_state ''document'' = Some (PDoc ex_document) \<and>
   fst (publish ex_env Map.empty ex_state) = Inr () \<and>
   properties (snd (publish ex_env Map.empty ex_state)) ''upload_path'' =
     Some (PStr ''/proj/art.psd'') \<and>
   path_calls (snd (publish ex_env Map.empty ex_state)) = [PDoc ex_document]"
proof -
  have h: "properties ex_state ''document'' = Some (PDoc ex_document)"
    by (simp add: ex_state_def)
  have p: "fst (document_path (PDoc ex_document) ex_state) = Some ''/proj/art.psd''"
    by (simp add: document_path_def ex_document_def)
  have r: "fst (publish ex_env Map.empty ex_state) = Inr ()"
    by (simp add: publish_def document_path_def ex_state_def ex_document_def ex_env_def
          ex_layers_def image_save_def register_publish_def logger_info_def Let_def)
  have c: "path_calls ex_state = []"
    by (simp add: ex_state_def)
  show ?thesis
    using h r publish_stores_upload_path [OF h, of ex_env Map.empty]
    by (simp add: p c)
qed

lemma publish_loop_register_calls:
  "fst (publish_loop e (Some p) ls s) = Inr () \<Longrightarrow>
   register_calls (snd (publish_loop e (Some p) ls s)) =
     register_calls s @
     map (\<lambda>l. \<lparr>pc_context = item_context s,
                 pc_path = path_join (dirname p) (layer_name l @ ''.tiff''),
                 pc_name = layer_name l, pc_version_number = None,
                 pc_published_file_type = ''Rendered Image''\<rparr>) ls"
proof (induction ls arbitrary: s)
  case Nil
  show ?case by simp
next
  case (Cons l ls)
  from Cons.prems obtain img where img: "layer_compose l = Inr img"
    by (cases "layer_compose l") simp_all
  from Cons.prems img have sv: "save_error e (path_join (cwd e) (layer_name l @ ''.tiff'')) = None"
    by (simp add: image_save_def Let_def split: option.splits)
  define c where "c = \<lparr>pc_context = item_context s,
                 pc_path = path_join (dirname p) (layer_name l @ ''.tiff''),
                 pc_name = layer_name l, pc_version_number = None,
                 pc_published_file_type = ''Rendered Image''\<rparr>"
  from Cons.prems img sv have rg: "register_error e c = None"
    by (simp add: c_def image_save_def register_publish_def logger_info_def Let_def
          split: option.splits)
  define s3 where "s3 =
     s\<lparr>files := (files s)(path_join (cwd e) (layer_name l @ ''.tiff'') \<mapsto> img),
       logged := logged s @ [\<lparr>log_level = Info, log_format = ''Saved Layer {layerName}.psd'',
                               log_args = [PStr (layer_name l)], log_extra = None\<rparr>],
       register_calls := register_calls s @ [c]\<rparr>"
  have step: "publish_loop e (Some p) (l # ls) s = publish_loop e (Some p) ls s3"
    using img sv rg
    by (simp add: s3_def c_def image_save_def register_publish_def logger_info_def Let_def)
  have "fst (publish_loop e (Some p) ls s3) = Inr ()"
    using Cons.prems unfolding step .
  from Cons.IH [OF this] show ?case
    unfolding step by (simp add: s3_def c_def)
qed

lemma publish_loop_returns:
  "list_all (\<lambda>l. (\<exists>img. layer_compose l = Inr img) \<and>
                  save_error e (path_join (cwd e) (layer_name l @ ''.tiff'')) = None \<and>
                  register_error e
                    \<lparr>pc_context = item_context s,
                     pc_path = path_join (dirname p) (layer_name l @ ''.tiff''),
                     pc_name = layer_name l, pc_version_number = None,
                     pc_published_file_type = ''Rendered Image''\<rparr> = None) ls \<Longrightarrow>
   fst (publish_loop e (Some p) ls s) = Inr ()"
proof (induction ls arbitrary: s)
  case Nil
  show ?case by simp
next
  case (Cons l ls)
  from Cons.prems obtain img where img: "layer_compose l = Inr img"
    by auto
  define c where "c = \<lparr>pc_context = item_context s,
                 pc_path = path_join (dirname p) (layer_name l @ ''.tiff''),
                 pc_name = layer_name l, pc_version_number = None,
                 pc_published_file_type = ''Rendered Image''\<rparr>"
  define s3 where "s3 =
     s\<lparr>files := (files s)(path_join (cwd e) (layer_name l @ ''.tiff'') \<mapsto> img),
       logged := logged s @ [\<lparr>log_level = Info, log_format = ''Saved Layer {layerName}.psd'',
                               log_args = [PStr (layer_name l)], log_extra = None\<rparr>],
       register_calls := register_calls s @ [c]\<rparr>"
  have ctx: "item_context s3 = item_context s"
    by (simp add: s3_def)
  have step: "publish_loop e (Some p) (l # ls) s = publish_loop e (Some p) ls s3"
    using img Cons.prems
    by (simp add: s3_def c_def image_save_def register_publish_def logger_info_def Let_def)
  have "fst (publish_loop e (Some p) ls s3) = Inr ()"
    using Cons.prems by (intro Cons.IH) (simp add: ctx)
  then show ?case unfolding step .
qed

text \<open>
  C2. For a document that resolves to the path \<open>p\<close> and that the decode library opens:
  when \<open>publish\<close> returns, the calls it made to the registration API are, in the order
  of the layers, exactly one per layer, with the path
  \<open>os.path.join(os.path.dirname(p), layer.name + '.tiff')\<close>, the layer's name,
  \<open>version_number=None\<close> and \<open>published_file_type="Rendered Image"\<close>; and it does
  return when no layer's \<open>compose\<close>, save or registration raises. For the layers
  \<open>bg\<close>, \<open>fg\<close>, \<open>text\<close> these are three calls.
\<close>

theorem publish_registers_each_layer:
  assumes "properties s ''document'' = Some document"
    and "fst (document_path document s) = Some p"
    and "PSDImage_open e (Some p) = Inr psdProject"
  shows "(fst (publish e settings s) = Inr () \<longrightarrow>
            register_calls (snd (publish e settings s)) =
              register_calls s @
              map (\<lambda>l. \<lparr>pc_context = item_context s,
                          pc_path = path_join (dirname p) (layer_name l @ ''.tiff''),
                          pc_name = layer_name l, pc_version_number = None,
                          pc_published_file_type = ''Rendered Image''\<rparr>) psdProject) \<and>
         (list_all (\<lambda>l. (\<exists>img. layer_compose l = Inr img) \<and>
                  save_error e (path_join (cwd e) (layer_name l @ ''.tiff'')) = None \<and>
                  register_error e
                    \<lparr>pc_context = item_context s,
                     pc_path = path_join (dirname p) (layer_name l @ ''.tiff''),
                     pc_name = layer_name l, pc_version_number = None,
                     pc_published_file_type = ''Rendered Image''\<rparr> = None) psdProject \<longrightarrow>
            fst (publish e settings s) = Inr ())"
proof -
  define s2 where "s2 =
     s\<lparr>path_calls := path_calls s @ [document],
       properties := (properties s)(''upload_path'' \<mapsto> PStr p)\<rparr>"
  have pub: "publish e settings s = publish_loop e (Some p) psdProject s2"
    using assms by (simp add: publish_def document_path_def s2_def Let_def)
  have ctx: "item_context s2 = item_context s" and rc: "register_calls s2 = register_calls s"
    by (simp_all add: s2_def)
  show ?thesis
    using publish_loop_register_calls [of e p psdProject s2]
          publish_loop_returns [of e s2 p psdProject]
    by (simp add: pub ctx rc)
qed

theorem publish_registers_each_layer_witness:
  "properties ex_state ''document'' = Some (PDoc ex_document) \<and>
   fst (document_path (PDoc ex_document) ex_state) = Some ''/proj/art.psd'' \<and>
   PSDImage_open ex_env (Some ''/proj/art.psd'') = Inr ex_layers \<and>
   map layer_name ex_layers = [''bg'', ''fg'', ''text''] \<and>
   fst (publish ex_env Map.empty ex_state) = Inr () \<and>
   register_calls (snd (publish ex_env Map.empty ex_state)) =
     [\<lparr>pc_context = Context (Some ''Shot_010'') (Some ''Demo''),
       pc_path = ''/proj/bg.tiff'', pc_name = ''bg'',
       pc_version_number = None, pc_published_file_type = ''Rendered Image''\<rparr>,
      \<lparr>pc_context = Context (Some ''Shot_010'') (Some ''Demo''),
       pc_path = ''/proj/fg.tiff'', pc_name = ''fg'',
       pc_version_number = None, pc_published_file_type = ''Rendered Image''\<rparr>,
      \<lparr>pc_context = Context (Some ''Shot_010'') (Some ''Demo''),
       pc_path = ''/proj/text.tiff'', pc_name = ''text'',
       pc_version_number = None, pc_published_file_type = ''Rendered Image''\<rparr>]"
proof -
  have h1: "properties ex_state ''document'' = Some (PDoc ex_document)"
    by (simp add: ex_state_def)
  have h2: "fst (document_path (PDoc ex_document) ex_state) = Some ''/proj/art.psd''"
    by (simp add: document_path_def ex_document_def)
  have h3: "PSDImage_open ex_env (Some ''/proj/art.psd'') = Inr ex_layers"
    by (simp add: ex_env_def)
  have ok: "list_all (\<lambda>l. (\<exists>img. layer_compose l = Inr img) \<and>
                  save_error ex_env (path_join (cwd ex_env) (layer_name l @ ''.tiff'')) = None \<and>
                  register_error ex_env
                    \<lparr>pc_context = item_context ex_state,
                     pc_path = path_join (dirname ''/proj/art.psd'') (layer_name l @ ''.tiff''),
                     pc_name = layer_name l, pc_version_number = None,
                     pc_published_file_type = ''Rendered Image''\<rparr> = None) ex_layers"
    by (simp add: ex_layers_def ex_env_def)
  have ctx: "item_context ex_state = Context (Some ''Shot_010'') (Some ''Demo'')"
    and rc: "register_calls ex_state = []"
    by (simp_all add: ex_state_def)
  have names: "map layer_name ex_layers = [''bg'', ''fg'', ''text'']"
    by (simp add: ex_layers_def)
  have paths: "map (\<lambda>l. \<lparr>pc_context = Context (Some ''Shot_010'') (Some ''Demo''),
                          pc_path = path_join (dirname ''/proj/art.psd'') (layer_name l @ ''.tiff''),
                          pc_name = layer_name l, pc_version_number = None,
                          pc_published_file_type = ''Rendered Image''\<rparr>) ex_layers =
     [\<lparr>pc_context = Context (Some ''Shot_010'') (Some ''Demo''),
       pc_path = ''/proj/bg.tiff'', pc_name = ''bg'',
       pc_version_number = None, pc_published_file_type = ''Rendered Image''\<rparr>,
      \<lparr>pc_context = Context (Some ''Shot_010'') (Some ''Demo''),
       pc_path = ''/proj/fg.tiff'', pc_name = ''fg'',
       pc_version_number = None, pc_published_file_type = ''Rendered Image''\<rparr>,
      \<lparr>pc_context = Context (Some ''Shot_010'') (Some ''Demo''),
       pc_path = ''/proj/text.tiff'', pc_name = ''text'',
       pc_version_number = None, pc_published_file_type = ''Rendered Image''\<rparr>]"
    by (simp add: ex_layers_def ex_dirname path_join_def)
  show ?thesis
    using h1 h2 h3 ok names publish_registers_each_layer [OF h1 h2 h3, of Map.empty]
    by (simp add: ctx rc paths)
qed

text \<open>
  C1. The image of a layer is saved under the relative name \<open>layer.name + '.tiff'\<close>,
  that is, in the working directory of the process, not beside the document. For the
  document \<open>/proj/art.psd\<close> and the working directory \<open>/tmp\<close>, \<open>publish\<close> returns,
  the image of \<open>bg\<close> is in \<open>/tmp/bg.tiff\<close>, there is no file \<open>/proj/bg.tiff\<close>,
  and the paths registered are \<open>/proj/bg.tiff\<close>, \<open>/proj/fg.tiff\<close> and
  \<open>/proj/text.tiff\<close>.
\<close>

theorem publish_saves_in_working_directory:
  "fst (publish ex_env Map.empty ex_state) = Inr () \<and>
   files (snd (publish ex_env Map.empty ex_state)) ''/tmp/bg.tiff'' = Some [0] \<and>
   files (snd (publish ex_env Map.empty ex_state)) ''/proj/bg.tiff'' = None \<and>
   map pc_path (register_calls (snd (publish ex_env Map.empty ex_state))) =
     [''/proj/bg.tiff'', ''/proj/fg.tiff'', ''/proj/text.tiff'']"
  by (simp add: ex_publish)

subsection \<open>finalize\<close>

lemma os_remove_logged_update:
  "os_remove e v (s\<lparr>logged := l\<rparr>) =
     (fst (os_remove e v s), (snd (os_remove e v s))\<lparr>logged := l\<rparr>)"
  by (simp add: os_remove_def Let_def split: pvalue.splits option.splits)

lemma os_remove_logged: "logged (snd (os_remove e v s)) = logged s"
  by (simp add: os_remove_def Let_def split: pvalue.splits option.splits)

text \<open>
  C6. When the item has an \<open>upload_path\<close> and its \<open>remove_upload\<close> is true,
  \<open>finalize\<close> does not raise; the files it leaves are those that \<open>os.remove\<close> of
  \<open>upload_path\<close> leaves; and when that removal raises (no such file, a file that
  cannot be removed, a value that is no path), the log holds the warning after the
  informational record, and no warning otherwise.
\<close>

theorem finalize_remove_failure_is_caught:
  assumes "properties s ''upload_path'' = Some upload_path"
    and "truthy (properties_get s ''remove_upload'' (PBool False))"
  shows "fst (finalize e settings s) = Inr () \<and>
         files (snd (finalize e settings s)) = files (snd (os_remove e upload_path s)) \<and>
         logged (snd (finalize e settings s)) =
           logged s @
           [\<lparr>log_level = Info, log_format = ''Version uploaded for Photoshop document'',
             log_args = [],
             log_extra = Some (ActionShowInShotgun ''Show Version''
                                 ''Reveal the version in Shotgun.'' None)\<rparr>] @
           (case fst (os_remove e upload_path s) of
              Inl err \<Rightarrow> [\<lparr>log_level = Warn, log_format = ''Unable to remove temp file: %s'',
                            log_args = [upload_path], log_extra = None\<rparr>]
            | Inr u \<Rightarrow> [])"
  using assms
  by (simp add: finalize_def logger_info_def logger_warn_def properties_get_def Let_def
        os_remove_logged_update os_remove_logged split: option.splits sum.splits prod.splits)

theorem finalize_remove_failure_is_caught_witness:
  "properties ex_remove_missing ''upload_path'' = Some (PStr ''/proj/gone.psd'') \<and>
   truthy (properties_get ex_remove_missing ''remove_upload'' (PBool False)) \<and>
   fst (os_remove ex_env (PStr ''/proj/gone.psd'') ex_remove_missing) = Inl OSError \<and>
   fst (finalize ex_env Map.empty ex_remove_missing) = Inr () \<and>
   files (snd (finalize ex_env Map.empty ex_remove_missing)) = files ex_remove_missing \<and>
   logged (snd (finalize ex_env Map.empty ex_remove_missing)) =
     [\<lparr>log_level = Info, log_format = ''Version uploaded for Photoshop document'',
       log_args = [],
       log_extra = Some (ActionShowInShotgun ''Show Version''
                           ''Reveal the version in Shotgun.'' None)\<rparr>,
      \<lparr>log_level = Warn, log_format = ''Unable to remove temp file: %s'',
       log_args = [PStr ''/proj/gone.psd''], log_extra = None\<rparr>]"
proof -
  have h1: "properties ex_remove_missing ''upload_path'' = Some (PStr ''/proj/gone.psd'')"
    by (simp add: ex_remove_missing_def)
  have h2: "truthy (properties_get ex_remove_missing ''remove_upload'' (PBool False))"
    by (simp add: ex_remove_missing_def properties_get_def)
  have r: "os_remove ex_env (PStr ''/proj/gone.psd'') ex_remove_missing = (Inl OSError, ex_remove_missing)"
    by (simp add: os_remove_def ex_env_def ex_remove_missing_def ex_state_def path_join_def)
  show ?thesis
    using h1 h2 finalize_remove_failure_is_caught [OF h1 h2, of ex_env Map.empty]
    by (simp add: r) (simp add: ex_remove_missing_def ex_state_def)
qed

text \<open>
  C7. When \<open>remove_upload\<close> is unset or false, \<open>finalize\<close> leaves the files as
  they are, whatever else the item holds.
\<close>

theorem finalize_keeps_files:
  assumes "\<not> truthy (properties_get s ''remove_upload'' (PBool False))"
  shows "files (snd (finalize e settings s)) = files s"
  using assms
  by (simp add: finalize_def logger_info_def properties_get_def Let_def split: option.splits)

theorem finalize_keeps_files_witness:
  "\<not> truthy (properties_get ex_published ''remove_upload'' (PBool False)) \<and>
   properties ex_published ''upload_path'' = Some (PStr ''/proj/art.psd'') \<and>
   files (snd (finalize ex_env Map.empty ex_published)) ''/proj/art.psd'' = Some [7]"
proof -
  have h: "\<not> truthy (properties_get ex_published ''remove_upload'' (PBool False))"
    by (simp add: properties_get_def ex_published_def ex_state_def)
  show ?thesis
    using h finalize_keeps_files [OF h, of ex_env Map.empty]
    by (simp add: ex_published_def ex_state_def)
qed

text \<open>
  C10. When the item has no \<open>upload_path\<close>, \<open>finalize\<close> raises the \<open>KeyError\<close>
  of the subscript, whatever \<open>remove_upload\<close> is (the subscript comes before the test).
\<close>

theorem finalize_without_upload_path:
  assumes "properties s ''upload_path'' = None"
  shows "fst (finalize e settings s) = Inl (KeyError ''upload_path'')"
  using assms by (simp add: finalize_def logger_info_def)

theorem finalize_without_upload_path_witness:
  "properties ex_state ''upload_path'' = None \<and>
   properties ex_state ''remove_upload'' = None \<and>
   fst (finalize ex_env Map.empty ex_state) = Inl (KeyError ''upload_path'')"
proof -
  have h: "properties ex_state ''upload_path'' = None"
    by (simp add: ex_state_def)
  show ?thesis
    using h finalize_without_upload_path [OF h, of ex_env Map.empty]
    by (simp add: ex_state_def)
qed

end
